theory Spec2Isabelle
  imports Main "HOL-Library.Multiset"
begin

section \<open>The font blob generator \<^verbatim>\<open>create_temp_font.py\<close>\<close>

text \<open>
  The script allocates a zero-filled \<^verbatim>\<open>bytearray\<close> of \<open>256 * 16\<close> bytes, stores literal
  row bitmaps at literal offsets, writes the buffer to \<^verbatim>\<open>assets/default_font.bin\<close> and
  prints one line. Python integers are unbounded, so offsets and byte values are \<open>int\<close>;
  every exception the script can meet is a value of \<open>py_error\<close>.
\<close>

subsection \<open>The byte buffer\<close>

datatype py_error =
  IndexError | ValueError | FileNotFoundError | NotADirectoryError | IsADirectoryError |
  PermissionError | OSError

text \<open>
  \<^verbatim>\<open>bytearray(n)\<close>: \<open>n\<close> zero bytes; a negative count raises \<^verbatim>\<open>ValueError\<close>.
\<close>

definition bytearray :: "int \<Rightarrow> py_error + int list" where
  "bytearray n = (if n < 0 then Inl ValueError else Inr (replicate (nat n) 0))"

text \<open>
  \<^verbatim>\<open>buf[i] = v\<close> on a bytearray: the value must be in \<^verbatim>\<open>range(256)\<close>
  (\<^verbatim>\<open>ValueError\<close> otherwise), a negative index counts from the end, and an index that is
  still out of range raises \<^verbatim>\<open>IndexError\<close>. The store never resizes the buffer.
\<close>

definition setitem :: "int list \<Rightarrow> int \<Rightarrow> int \<Rightarrow> py_error + int list" where
  "setitem buf i v =
     (if v < 0 \<or> 255 < v then Inl ValueError
      else let j = (if i < 0 then i + int (length buf) else i) in
        if j < 0 \<or> int (length buf) \<le> j then Inl IndexError
        else Inr (buf[nat j := v]))"

text \<open>
  Lines 10 to 57 of the script, in order: each pair is the index expression and the
  literal stored there by one statement \<^verbatim>\<open>font_data[index] = literal\<close>.
\<close>

definition assignments :: "(int \<times> int) list" where
  "assignments =
    [(0x41 * 16 + 2, 0b00111100),
     (0x41 * 16 + 3, 0b01100110),
     (0x41 * 16 + 4, 0b11000011),
     (0x41 * 16 + 5, 0b11000011),
     (0x41 * 16 + 6, 0b11111111),
     (0x41 * 16 + 7, 0b11000011),
     (0x41 * 16 + 8, 0b11000011),
     (0x41 * 16 + 9, 0b11000011),

     (0x48 * 16 + 2, 0b11000011),
     (0x48 * 16 + 3, 0b11000011),
     (0x48 * 16 + 4, 0b11000011),
     (0x48 * 16 + 5, 0b11111111),
     (0x48 * 16 + 6, 0b11000011),
     (0x48 * 16 + 7, 0b11000011),
     (0x48 * 16 + 8, 0b11000011),
     (0x48 * 16 + 9, 0b11000011),

     (0x65 * 16 + 4, 0b00111100),
     (0x65 * 16 + 5, 0b01100110),
     (0x65 * 16 + 6, 0b11111111),
     (0x65 * 16 + 7, 0b11000000),
     (0x65 * 16 + 8, 0b11000000),
     (0x65 * 16 + 9, 0b01100110),
     (0x65 * 16 + 10, 0b00111100),

     (0x6C * 16 + 1, 0b00111000),
     (0x6C * 16 + 2, 0b00011000),
     (0x6C * 16 + 3, 0b00011000),
     (0x6C * 16 + 4, 0b00011000),
     (0x6C * 16 + 5, 0b00011000),
     (0x6C * 16 + 6, 0b00011000),
     (0x6C * 16 + 7, 0b00011000),
     (0x6C * 16 + 8, 0b00011000),
     (0x6C * 16 + 9, 0b00011000),
     (0x6C * 16 + 10, 0b00111100),

     (0x6F * 16 + 4, 0b00111100),
     (0x6F * 16 + 5, 0b01100110),
     (0x6F * 16 + 6, 0b11000011),
     (0x6F * 16 + 7, 0b11000011),
     (0x6F * 16 + 8, 0b11000011),
     (0x6F * 16 + 9, 0b01100110),
     (0x6F * 16 + 10, 0b00111100)]"

text \<open>
  Running a sequence of such statements on a buffer: the first statement that raises
  ends the run with its exception.
\<close>

fun populate :: "(int \<times> int) list \<Rightarrow> int list \<Rightarrow> py_error + int list" where
  "populate [] buf = Inr buf"
| "populate ((i, v) # rest) buf =
     (case setitem buf i v of
        Inl e \<Rightarrow> Inl e
      | Inr buf' \<Rightarrow> populate rest buf')"

text \<open>The module-level variable \<^verbatim>\<open>font_data\<close> as it stands after line 57.\<close>

definition font_data :: "py_error + int list" where
  "font_data =
     (case bytearray (256 * 16) of
        Inl e \<Rightarrow> Inl e
      | Inr buf \<Rightarrow> populate assignments buf)"

subsection \<open>The environment: files, standard streams, exit status\<close>

text \<open>
  What the script can observe and change outside its own variables, as CPython on a
  POSIX system presents it. Paths are relative to the working directory.
  \<^item> \<open>dirs\<close> are the directories that exist. \<open>resolve\<close> is the system's resolution of the
    last component of a path through symbolic links (the identity on a path that is
    no link).
  \<^item> \<open>names\<close> are the directory entries of regular files, each naming an inode;
    several entries may name one inode (hard links). \<open>contents\<close> gives the bytes of an
    inode, \<open>next_inode\<close> the inode the next new file gets.
  \<^item> \<open>denied\<close> holds the paths the system refuses to open for writing (a read-only
    directory or file), \<open>free_space\<close> the number of bytes the device still accepts.
  \<^item> A standard stream is \<open>Writable\<close>; or \<open>Closed\<close> (its descriptor was closed when the
    interpreter started, so \<^verbatim>\<open>sys.stdout\<close> or \<^verbatim>\<open>sys.stderr\<close> is \<^verbatim>\<open>None\<close>); or writing to it
    fails, which an unbuffered stream shows at once (\<open>Fails_on_write\<close>) and a
    buffered one when it is flushed (\<open>Fails_on_flush\<close>).
\<close>

datatype stream_state = Writable | Closed | Fails_on_write | Fails_on_flush

record world =
  dirs :: "string set"
  resolve :: "string \<Rightarrow> string"
  names :: "string \<rightharpoonup> nat"
  contents :: "nat \<Rightarrow> int list"
  next_inode :: nat
  denied :: "string set"
  free_space :: nat
  stdin :: "string list"
  stdout_state :: stream_state
  stdout :: "string list"
  stderr_state :: stream_state
  stderr :: "string list"

text \<open>The bytes read through a path, when it leads to a regular file.\<close>

definition files :: "world \<Rightarrow> string \<Rightarrow> int list option" where
  "files w p = map_option (contents w) (names w (resolve w p))"

text \<open>The directory part of a path: everything before its last \<^verbatim>\<open>/\<close>.\<close>

definition dirname :: "string \<Rightarrow> string" where
  "dirname p = rev (drop 1 (dropWhile (\<lambda>c. c \<noteq> CHR ''/'') (rev p)))"

text \<open>
  \<^verbatim>\<open>open(path, 'wb')\<close>. It raises, before anything is created or changed,
  \<^item> \<^verbatim>\<open>FileNotFoundError\<close> when the parent directory is missing (\<^verbatim>\<open>NotADirectoryError\<close>
    when a regular file stands in its place), or when the path is a symbolic link
    into a missing directory;
  \<^item> \<^verbatim>\<open>IsADirectoryError\<close> when the path leads to a directory;
  \<^item> \<^verbatim>\<open>PermissionError\<close> when the system refuses the write access.
  Otherwise the result is the open file (its inode): an existing file is truncated to
  length 0, which gives its old bytes back to the device; a missing one is created
  with a new inode.
\<close>

definition open_wb :: "string \<Rightarrow> world \<Rightarrow> (py_error + nat) \<times> world" where
  "open_wb path w =
     (if dirname path \<notin> dirs w then
        (Inl (if names w (dirname path) = None then FileNotFoundError else NotADirectoryError), w)
      else let target = resolve w path in
        if target \<in> dirs w then (Inl IsADirectoryError, w)
        else if dirname target \<notin> dirs w then (Inl FileNotFoundError, w)
        else if target \<in> denied w then (Inl PermissionError, w)
        else
          (case names w target of
             Some i \<Rightarrow>
               (Inr i, w\<lparr>contents := (contents w)(i := []),
                         free_space := free_space w + length (contents w i)\<rparr>)
           | None \<Rightarrow>
               (Inr (next_inode w),
                w\<lparr>names := (names w)(target \<mapsto> next_inode w),
                  contents := (contents w)(next_inode w := []),
                  next_inode := Suc (next_inode w)\<rparr>)))"

text \<open>
  \<^verbatim>\<open>f.write(data)\<close> together with the flush and close that leaving the \<^verbatim>\<open>with\<close> block
  performs: the bytes the device accepts reach the file; when it accepts fewer than
  all of them the statement raises \<^verbatim>\<open>OSError\<close> and the file keeps the part written.
\<close>

definition file_write :: "nat \<Rightarrow> int list \<Rightarrow> world \<Rightarrow> (py_error + nat) \<times> world" where
  "file_write f data w =
     (let n = min (length data) (free_space w);
          w' = w\<lparr>contents := (contents w)(f := take n data), free_space := free_space w - n\<rparr>
      in if n < length data then (Inl OSError, w') else (Inr (length data), w'))"

text \<open>
  \<^verbatim>\<open>print(s)\<close>. On a writable standard output the line arrives. When \<^verbatim>\<open>sys.stdout\<close> is
  \<^verbatim>\<open>None\<close> the call does nothing. When writing fails, an unbuffered stream makes the
  call raise \<^verbatim>\<open>OSError\<close>; a buffered stream takes the line into its buffer, and the call
  returns. The result of a call that returns is the text left in that buffer.
\<close>

definition print :: "string \<Rightarrow> world \<Rightarrow> (py_error + string list) \<times> world" where
  "print s w =
     (case stdout_state w of
        Writable \<Rightarrow> (Inr [], w\<lparr>stdout := stdout w @ [s]\<rparr>)
      | Closed \<Rightarrow> (Inr [], w)
      | Fails_on_write \<Rightarrow> (Inl OSError, w)
      | Fails_on_flush \<Rightarrow> (Inr [s], w))"

text \<open>
  The whole script, lines 7 to 62. No statement is inside a \<^verbatim>\<open>try\<close>, so the first
  exception ends the script; \<^verbatim>\<open>import struct\<close> (line 2) is never used and has no effect.
  A script that ends without an exception returns what is left in the buffer of
  standard output.
\<close>

definition script :: "world \<Rightarrow> (py_error + string list) \<times> world" where
  "script w =
     (case font_data of
        Inl e \<Rightarrow> (Inl e, w)
      | Inr buf \<Rightarrow>
          (case open_wb ''assets/default_font.bin'' w of
             (Inl e, w1) \<Rightarrow> (Inl e, w1)
           | (Inr f, w1) \<Rightarrow>
               (case file_write f buf w1 of
                  (Inl e, w2) \<Rightarrow> (Inl e, w2)
                | (Inr n, w2) \<Rightarrow> print ''Created default_font.bin'' w2)))"

text \<open>
  The interpreter running the script as a process. An exception that reaches the top
  level is reported on standard error and the exit status is 1. Otherwise the
  interpreter flushes standard output on its way out: when text is left in the buffer
  and cannot be written, it reports that on standard error and the exit status is 120;
  else the exit status is 0. Nothing reaches a standard error that is not writable.
\<close>

fun exception_name :: "py_error \<Rightarrow> string" where
  "exception_name IndexError = ''IndexError''"
| "exception_name ValueError = ''ValueError''"
| "exception_name FileNotFoundError = ''FileNotFoundError''"
| "exception_name NotADirectoryError = ''NotADirectoryError''"
| "exception_name IsADirectoryError = ''IsADirectoryError''"
| "exception_name PermissionError = ''PermissionError''"
| "exception_name OSError = ''OSError''"

definition traceback :: "py_error \<Rightarrow> string" where
  "traceback e = ''Traceback (most recent call last): '' @ exception_name e"

definition flush_warning :: string where
  "flush_warning = ''Exception ignored on flushing sys.stdout: OSError''"

definition report :: "string \<Rightarrow> world \<Rightarrow> world" where
  "report msg w = (if stderr_state w = Writable then w\<lparr>stderr := stderr w @ [msg]\<rparr> else w)"

definition python3 :: "world \<Rightarrow> int \<times> world" where
  "python3 w =
     (case script w of
        (Inl e, w') \<Rightarrow> (1, report (traceback e) w')
      | (Inr pending, w') \<Rightarrow>
          (if pending = [] then (0, w') else (120, report flush_warning w')))"

subsection \<open>Auxiliary notions for the proofs\<close>

text \<open>
  A store \<open>(i, v)\<close> that cannot raise on a buffer of \<open>n\<close> bytes, and what it does then.
\<close>

definition storable :: "nat \<Rightarrow> int \<times> int \<Rightarrow> bool" where
  "storable n a = (0 \<le> fst a \<and> fst a < int n \<and> 0 \<le> snd a \<and> snd a \<le> 255)"

definition poke :: "int list \<Rightarrow> int \<times> int \<Rightarrow> int list" where
  "poke buf a = buf[nat (fst a) := snd a]"

text \<open>
  The populated row offsets as the specification lists them: \<^verbatim>\<open>'A'\<close> and \<^verbatim>\<open>'H'\<close> rows 2 to 9,
  \<^verbatim>\<open>'e'\<close> and \<^verbatim>\<open>'o'\<close> rows 4 to 10, \<^verbatim>\<open>'l'\<close> rows 1 to 10.
\<close>

definition spec_populated_offsets :: "nat list" where
  "spec_populated_offsets =
     map (\<lambda>row. 0x41 * 16 + row) [2 ..< 10] @
     map (\<lambda>row. 0x48 * 16 + row) [2 ..< 10] @
     map (\<lambda>row. 0x65 * 16 + row) [4 ..< 11] @
     map (\<lambda>row. 0x6C * 16 + row) [1 ..< 11] @
     map (\<lambda>row. 0x6F * 16 + row) [4 ..< 11]"

text \<open>The path the script writes.\<close>

abbreviation output_path :: string where
  "output_path \<equiv> ''assets/default_font.bin''"

text \<open>
  The conditions under which \<^verbatim>\<open>open\<close> succeeds on the output path, and the space the
  device has for the file once an old file there is truncated.
\<close>

definition openable :: "world \<Rightarrow> bool" where
  "openable w =
     (dirname output_path \<in> dirs w \<and> resolve w output_path \<notin> dirs w \<and>
      dirname (resolve w output_path) \<in> dirs w \<and> resolve w output_path \<notin> denied w)"

definition room :: "world \<Rightarrow> nat" where
  "room w =
     free_space w +
     (case names w (resolve w output_path) of None \<Rightarrow> 0 | Some i \<Rightarrow> length (contents w i))"

text \<open>
  The inode \<^verbatim>\<open>open\<close> yields for the output path, and the file system once that file
  holds \<open>data\<close>.
\<close>

definition target_inode :: "world \<Rightarrow> nat" where
  "target_inode w =
     (case names w (resolve w output_path) of None \<Rightarrow> next_inode w | Some i \<Rightarrow> i)"

definition stored :: "world \<Rightarrow> int list \<Rightarrow> world" where
  "stored w data =
     w\<lparr>names := (names w)(resolve w output_path \<mapsto> target_inode w),
       contents := (contents w)(target_inode w := data),
       next_inode :=
         (if names w (resolve w output_path) = None then Suc (next_inode w) else next_inode w),
       free_space := room w - length data\<rparr>"


text \<open>
  Two paths lead to the same file: to the same directory entry, or to two entries for
  one inode.
\<close>

definition same_file :: "world \<Rightarrow> string \<Rightarrow> string \<Rightarrow> bool" where
  "same_file w p q =
     (resolve w p = resolve w q \<or>
      (names w (resolve w p) \<noteq> None \<and> names w (resolve w p) = names w (resolve w q)))"

text \<open>
  Environments to run the script in. \<open>bare_world\<close> has no \<^verbatim>\<open>assets\<close> directory and
  \<open>ready_world\<close> has one; both hold an unrelated file. The others are \<open>ready_world\<close> on a
  device that accepts only 100 more bytes, with a buffered standard output that
  cannot be written, with a closed standard output, and with a second name for the
  unrelated file at the output path; and \<open>bare_world\<close> with a closed standard error.
\<close>

definition bare_world :: world where
  "bare_world = \<lparr>dirs = {''''}, resolve = (\<lambda>p. p), names = [''README.md'' \<mapsto> 0],
     contents = (\<lambda>i. [])(0 := [35, 10]), next_inode = 1, denied = {}, free_space = 100000,
     stdin = [], stdout_state = Writable, stdout = [], stderr_state = Writable, stderr = []\<rparr>"

definition ready_world :: world where
  "ready_world = bare_world\<lparr>dirs := {'''', ''assets''}\<rparr>"




definition linked_world :: world where
  "linked_world = ready_world\<lparr>names := [''README.md'' \<mapsto> 0, output_path \<mapsto> 0]\<rparr>"


section \<open>Properties of the buffer\<close>

subsection \<open>Stores that cannot raise\<close>

lemma setitem_length: "setitem buf i v = Inr buf' \<Longrightarrow> length buf' = length buf"
  by (auto simp: setitem_def Let_def split: if_splits)

lemma setitem_storable:
  "storable (length buf) (i, v) \<Longrightarrow> setitem buf i v = Inr (poke buf (i, v))"
  by (simp add: setitem_def storable_def poke_def)

lemma length_poke [simp]: "length (poke buf a) = length buf"
  by (simp add: poke_def)

lemma length_foldl_poke [simp]: "length (foldl poke buf xs) = length buf"
  by (induction xs arbitrary: buf) simp_all

lemma populate_storable:
  "list_all (storable (length buf)) xs \<Longrightarrow> populate xs buf = Inr (foldl poke buf xs)"
proof (induction xs arbitrary: buf)
  case Nil
  show ?case by simp
next
  case (Cons a xs)
  obtain i v where a: "a = (i, v)" by (cases a)
  from Cons.prems have s: "storable (length buf) (i, v)"
    and r: "list_all (storable (length (poke buf (i, v)))) xs"
    by (simp_all add: a)
  show ?case using Cons.IH [OF r] by (simp add: a setitem_storable [OF s])
qed

text \<open>
  With pairwise distinct offsets, the byte at \<open>j\<close> after all stores is the value paired
  with \<open>j\<close>, or the old byte when no store targets \<open>j\<close>.
\<close>

lemma nth_foldl_poke:
  "list_all (storable (length buf)) xs \<Longrightarrow> distinct (map fst xs) \<Longrightarrow> j < length buf \<Longrightarrow>
   foldl poke buf xs ! j = (case map_of xs (int j) of None \<Rightarrow> buf ! j | Some v \<Rightarrow> v)"
proof (induction xs arbitrary: buf)
  case Nil
  show ?case by simp
next
  case (Cons a xs)
  obtain i v where a: "a = (i, v)" by (cases a)
  from Cons.prems have s: "storable (length buf) (i, v)"
    and r: "list_all (storable (length (poke buf (i, v)))) xs"
    and d: "distinct (map fst xs)" and n: "i \<notin> fst ` set xs"
    and j: "j < length (poke buf (i, v))"
    by (simp_all add: a)
  have "foldl poke (poke buf (i, v)) xs ! j =
        (case map_of xs (int j) of None \<Rightarrow> poke buf (i, v) ! j | Some v \<Rightarrow> v)"
    by (rule Cons.IH [OF r d j])
  moreover have "int j = i \<Longrightarrow> map_of xs (int j) = None"
    using n by (simp add: map_of_eq_None_iff)
  moreover have "int j = i \<Longrightarrow> poke buf (i, v) ! j = v"
    using Cons.prems(3) by (auto simp: poke_def)
  moreover have "int j \<noteq> i \<Longrightarrow> poke buf (i, v) ! j = buf ! j"
    using s by (auto simp: poke_def storable_def)
  ultimately show ?case by (auto simp: a split: option.splits)
qed

subsection \<open>The forty stores of the script\<close>

lemma storable_assignments: "list_all (storable 4096) assignments"
  by (simp add: assignments_def storable_def)

lemma distinct_assignments: "distinct (map fst assignments)"
  by (simp add: assignments_def)

lemma font_data_eq: "font_data = Inr (foldl poke (replicate 4096 0) assignments)"
proof -
  have "populate assignments (replicate 4096 0) = Inr (foldl poke (replicate 4096 0) assignments)"
    by (rule populate_storable) (simp add: storable_assignments)
  then show ?thesis by (simp add: font_data_def bytearray_def)
qed

lemma font_data_built: "\<exists>buf. font_data = Inr buf \<and> length buf = 4096"
  by (simp add: font_data_eq)

lemma font_data_nth:
  "j < 4096 \<Longrightarrow> foldl poke (replicate 4096 0) assignments ! j =
     (case map_of assignments (int j) of None \<Rightarrow> 0 | Some v \<Rightarrow> v)"
  using nth_foldl_poke [of "replicate 4096 0" assignments j]
  by (simp add: storable_assignments distinct_assignments split: option.splits)

lemma offsets_eq: "map fst assignments = map int spec_populated_offsets"
  by (simp add: assignments_def spec_populated_offsets_def upt_rec)

text \<open>
  C1. The completed buffer holds, for each of the five populated glyphs, the row bytes
  of the specification's table: the byte at offset \<open>code * 16 + row\<close> is the listed value
  for every listed row of \<^verbatim>\<open>'A'\<close> (0x41), \<^verbatim>\<open>'H'\<close> (0x48), \<^verbatim>\<open>'e'\<close> (0x65), \<^verbatim>\<open>'l'\<close> (0x6C)
  and \<^verbatim>\<open>'o'\<close> (0x6F).
\<close>

theorem glyph_rows:
  "\<exists>buf. font_data = Inr buf \<and>
     map (\<lambda>row. buf ! (0x41 * 16 + row)) [2 ..< 10] =
       [0x3C, 0x66, 0xC3, 0xC3, 0xFF, 0xC3, 0xC3, 0xC3] \<and>
     map (\<lambda>row. buf ! (0x48 * 16 + row)) [2 ..< 10] =
       [0xC3, 0xC3, 0xC3, 0xFF, 0xC3, 0xC3, 0xC3, 0xC3] \<and>
     map (\<lambda>row. buf ! (0x65 * 16 + row)) [4 ..< 11] =
       [0x3C, 0x66, 0xFF, 0xC0, 0xC0, 0x66, 0x3C] \<and>
     map (\<lambda>row. buf ! (0x6C * 16 + row)) [1 ..< 11] =
       [0x38, 0x18, 0x18, 0x18, 0x18, 0x18, 0x18, 0x18, 0x18, 0x3C] \<and>
     map (\<lambda>row. buf ! (0x6F * 16 + row)) [4 ..< 11] =
       [0x3C, 0x66, 0xC3, 0xC3, 0xC3, 0x66, 0x3C]"
  by (simp add: font_data_eq upt_rec font_data_nth) (simp add: assignments_def)

text \<open>
  C4. In the completed buffer the bytes at \<open>0x41*16+4\<close>, \<open>0x48*16+5\<close>, \<open>0x65*16+7\<close>,
  \<open>0x6C*16+10\<close> and \<open>0x6F*16+4\<close> are \<open>0xC3\<close>, \<open>0xFF\<close>, \<open>0xC0\<close>, \<open>0x3C\<close> and \<open>0x3C\<close>; the
  byte at offset 0 is \<open>0x00\<close> and the byte at \<open>0x41*16+2\<close> is \<open>0x3C\<close>.
\<close>

theorem sample_bytes:
  "\<exists>buf. font_data = Inr buf \<and>
     buf ! (0x41 * 16 + 4) = 0xC3 \<and> buf ! (0x48 * 16 + 5) = 0xFF \<and>
     buf ! (0x65 * 16 + 7) = 0xC0 \<and> buf ! (0x6C * 16 + 10) = 0x3C \<and>
     buf ! (0x6F * 16 + 4) = 0x3C \<and> buf ! 0 = 0x00 \<and> buf ! (0x41 * 16 + 2) = 0x3C"
  by (simp add: font_data_eq font_data_nth) (simp add: assignments_def)

text \<open>
  C3. Every byte of the completed buffer at an offset below 4096 that is not one of the
  populated row offsets of the five glyphs is 0.
\<close>

theorem blank_elsewhere:
  "\<exists>buf. font_data = Inr buf \<and>
     (\<forall>i. i < 4096 \<and> i \<notin> set spec_populated_offsets \<longrightarrow> buf ! i = 0)"
proof -
  have "foldl poke (replicate 4096 0) assignments ! i = 0"
    if i: "i < 4096" and n: "i \<notin> set spec_populated_offsets" for i
  proof -
    have "set (map fst assignments) = int ` set spec_populated_offsets"
      by (simp add: offsets_eq)
    with n have "int i \<notin> fst ` set assignments" by auto
    then have "map_of assignments (int i) = None" by (simp add: map_of_eq_None_iff)
    with i show ?thesis by (simp add: font_data_nth)
  qed
  then show ?thesis by (simp add: font_data_eq)
qed

theorem blank_elsewhere_witness:
  "(0::nat) < 4096 \<and> 0 \<notin> set spec_populated_offsets \<and>
   (1050::nat) < 4096 \<and> 1050 \<notin> set spec_populated_offsets \<and>
   (4095::nat) < 4096 \<and> 4095 \<notin> set spec_populated_offsets \<and>
   (\<exists>buf. font_data = Inr buf \<and> buf ! 0 = 0 \<and> buf ! 1050 = 0 \<and> buf ! 4095 = 0)"
proof -
  have h: "(0::nat) < 4096 \<and> 0 \<notin> set spec_populated_offsets"
    "(1050::nat) < 4096 \<and> 1050 \<notin> set spec_populated_offsets"
    "(4095::nat) < 4096 \<and> 4095 \<notin> set spec_populated_offsets"
    by (simp_all add: spec_populated_offsets_def upt_rec)
  from blank_elsewhere obtain buf where b: "font_data = Inr buf"
    and z: "\<forall>i. i < 4096 \<and> i \<notin> set spec_populated_offsets \<longrightarrow> buf ! i = 0"
    by blast
  from z h have "buf ! 0 = 0 \<and> buf ! 1050 = 0 \<and> buf ! 4095 = 0" by blast
  with b h show ?thesis by blast
qed

text \<open>
  C9, as amended. The script performs 40 stores. Each targets an offset between
  \<open>0x41*16+2 = 1042\<close> (the first store) and \<open>0x6F*16+10 = 1786\<close> (the last one), all below
  4096, with a value in 0..255, so the allocation and every store succeed.
\<close>

theorem population_in_bounds:
  "length assignments = 40 \<and>
   list_all (\<lambda>(i, v). 0x41 * 16 + 2 \<le> i \<and> i \<le> 0x6F * 16 + 10 \<and> i < 4096 \<and> 0 \<le> v \<and> v \<le> 255)
     assignments \<and>
   fst (hd assignments) = 0x41 * 16 + 2 \<and> fst (last assignments) = 0x6F * 16 + 10 \<and>
   (0x41 * 16 + 2 :: int) = 1042 \<and> (0x6F * 16 + 10 :: int) = 1786 \<and>
   (\<exists>b0 buf. bytearray (256 * 16) = Inr b0 \<and> populate assignments b0 = Inr buf)"
proof -
  have "length assignments = 40"
    by (simp add: assignments_def)
  moreover have "list_all
      (\<lambda>(i, v). 0x41 * 16 + 2 \<le> i \<and> i \<le> 0x6F * 16 + 10 \<and> i < 4096 \<and> 0 \<le> v \<and> v \<le> 255)
      assignments"
    by (simp add: assignments_def)
  moreover have "fst (hd assignments) = 0x41 * 16 + 2 \<and> fst (last assignments) = 0x6F * 16 + 10"
    by (simp add: assignments_def)
  moreover have "populate assignments (replicate 4096 0) =
      Inr (foldl poke (replicate 4096 0) assignments)"
    by (rule populate_storable) (simp add: storable_assignments)
  then have "\<exists>b0 buf. bytearray (256 * 16) = Inr b0 \<and> populate assignments b0 = Inr buf"
    by (simp add: bytearray_def)
  ultimately show ?thesis by simp
qed

text \<open>
  The count of 41 stores and the equation \<open>0x6C*16+10 = 1786\<close> do not hold: there are 40
  stores, \<open>0x6C*16+10\<close> is 1738, and the highest offset 1786 belongs to the last store,
  into glyph \<open>0x6F\<close>.
\<close>

theorem population_count_counterexample:
  "length assignments \<noteq> 41 \<and> (0x6C * 16 + 10 :: int) \<noteq> 1786 \<and> fst (last assignments) = 1786"
  by (simp add: assignments_def)

subsection \<open>Order of the stores\<close>

lemma populate_permuted:
  assumes m: "mset ys = mset xs" and d: "distinct (map fst xs)"
    and s: "list_all (storable (length buf)) xs"
  shows "populate ys buf = populate xs buf"
proof -
  have set_eq: "set ys = set xs" using m by (rule mset_eq_setD)
  have s': "list_all (storable (length buf)) ys"
    using s set_eq by (simp add: list_all_iff)
  have "mset (map fst ys) = mset (map fst xs)" using m by (metis mset_map)
  then have "distinct (map fst ys) \<longleftrightarrow> distinct (map fst xs)"
    by (rule mset_eq_imp_distinct_iff)
  with d have d': "distinct (map fst ys)" by simp
  have mo: "map_of ys = map_of xs"
    using set_eq by (simp add: map_of_inject_set [OF d' d])
  have "foldl poke buf ys = foldl poke buf xs"
  proof (rule nth_equalityI)
    show "length (foldl poke buf ys) = length (foldl poke buf xs)" by simp
  next
    fix j assume "j < length (foldl poke buf ys)"
    then have j: "j < length buf" by simp
    show "foldl poke buf ys ! j = foldl poke buf xs ! j"
      by (simp add: nth_foldl_poke [OF s' d' j] nth_foldl_poke [OF s d j] mo)
  qed
  then show ?thesis by (simp add: populate_storable [OF s] populate_storable [OF s'])
qed

text \<open>
  C10, as amended. The 40 stores of the script target pairwise distinct offsets, so
  they commute: run in any order on the freshly allocated buffer, they give the buffer
  the script builds.
\<close>

theorem stores_commute:
  "length assignments = 40 \<and> distinct (map fst assignments) \<and>
   bytearray (256 * 16) = Inr (replicate 4096 0) \<and>
   (mset ys = mset assignments \<longrightarrow> populate ys (replicate 4096 0) = font_data)"
proof -
  have "populate ys (replicate 4096 0) = populate assignments (replicate 4096 0)"
    if "mset ys = mset assignments"
    using that distinct_assignments by (rule populate_permuted) (simp add: storable_assignments)
  moreover have "length assignments = 40" by (simp add: assignments_def)
  ultimately show ?thesis
    by (simp add: distinct_assignments font_data_def bytearray_def)
qed

theorem stores_commute_witness:
  "mset (rev assignments) = mset assignments \<and>
   populate (rev assignments) (replicate 4096 0) = font_data"
proof -
  have h: "mset (rev assignments) = mset assignments" by simp
  with stores_commute [of "rev assignments"] show ?thesis by blast
qed

text \<open>The stores target 40 different offsets, not 41.\<close>

theorem distinct_offsets_count_counterexample:
  "card (fst ` set assignments) \<noteq> 41"
proof -
  have "card (set (map fst assignments)) = length (map fst assignments)"
    using distinct_assignments by (rule distinct_card)
  then show ?thesis by (simp add: assignments_def)
qed

section \<open>Properties of the run\<close>

subsection \<open>What a run does, by cases on the environment\<close>

lemma dirname_output_path: "dirname output_path = ''assets''"
  by (simp add: dirname_def)

lemma open_wb_refused:
  "\<not> openable w \<Longrightarrow> \<exists>e. open_wb output_path w = (Inl e, w)"
  by (auto simp: open_wb_def openable_def Let_def)

lemma open_wb_openable:
  "openable w \<Longrightarrow> open_wb output_path w = (Inr (target_inode w), stored w [])"
  by (auto simp: open_wb_def openable_def Let_def stored_def target_inode_def room_def
      map_upd_triv split: option.splits)

lemma file_write_stored:
  "file_write (target_inode w) data (stored w []) =
     (if room w < length data then (Inl OSError, stored w (take (room w) data))
      else (Inr (length data), stored w data))"
  by (simp add: file_write_def stored_def Let_def min_def)

lemma script_refused:
  assumes "\<not> openable w"
  shows "\<exists>e. open_wb output_path w = (Inl e, w) \<and> script w = (Inl e, w) \<and>
           python3 w = (1, report (traceback e) w)"
proof -
  obtain blob where b: "font_data = Inr blob"
    using font_data_built by blast
  from open_wb_refused [OF assms] obtain e where e: "open_wb output_path w = (Inl e, w)" ..
  then have "script w = (Inl e, w)" by (simp add: script_def b)
  with e show ?thesis by (simp add: python3_def)
qed

lemma script_openable:
  assumes "font_data = Inr buf" and "length buf = 4096" and "openable w"
  shows "script w =
     (if room w < 4096 then (Inl OSError, stored w (take (room w) buf))
      else print ''Created default_font.bin'' (stored w buf))"
  by (simp add: script_def assms(1) open_wb_openable [OF assms(3)] file_write_stored assms(2))

lemma stored_fields [simp]:
  "dirs (stored w d) = dirs w" "resolve (stored w d) = resolve w" "denied (stored w d) = denied w"
  "stdin (stored w d) = stdin w" "stdout (stored w d) = stdout w" "stderr (stored w d) = stderr w"
  "stdout_state (stored w d) = stdout_state w" "stderr_state (stored w d) = stderr_state w"
  by (simp_all add: stored_def)

lemma report_fields [simp]:
  "dirs (report m w) = dirs w" "resolve (report m w) = resolve w" "denied (report m w) = denied w"
  "stdin (report m w) = stdin w" "stdout (report m w) = stdout w"
  "names (report m w) = names w" "contents (report m w) = contents w"
  "stdout_state (report m w) = stdout_state w" "stderr_state (report m w) = stderr_state w"
  "free_space (report m w) = free_space w" "next_inode (report m w) = next_inode w"
  by (simp_all add: report_def)

lemma files_report [simp]: "files (report m w) = files w"
  by (rule ext) (simp add: files_def)

lemma python3_openable:
  assumes "font_data = Inr buf" and "length buf = 4096" and "openable w"
  shows "python3 w =
     (if room w < 4096 then (1, report (traceback OSError) (stored w (take (room w) buf)))
      else case stdout_state w of
        Writable \<Rightarrow> (0, (stored w buf)\<lparr>stdout := stdout w @ [''Created default_font.bin'']\<rparr>)
      | Closed \<Rightarrow> (0, stored w buf)
      | Fails_on_write \<Rightarrow> (1, report (traceback OSError) (stored w buf))
      | Fails_on_flush \<Rightarrow> (120, report flush_warning (stored w buf)))"
  by (simp add: python3_def script_openable [OF assms] print_def split: stream_state.splits)

lemma python3_ok_iff:
  "fst (python3 w) = 0 \<longleftrightarrow>
     openable w \<and> 4096 \<le> room w \<and> (stdout_state w = Writable \<or> stdout_state w = Closed)"
proof -
  obtain blob where b: "font_data = Inr blob" "length blob = 4096"
    using font_data_built by blast
  show ?thesis
  proof (cases "openable w")
    case True
    then show ?thesis
      by (simp add: python3_openable [OF b True] split: stream_state.splits)
  next
    case False
    with script_refused [OF False] show ?thesis by auto
  qed
qed

lemma files_output_stored [simp]: "files (stored w d) output_path = Some d"
  by (simp add: files_def stored_def)

lemma files_stored_stdout [simp]: "files (w\<lparr>stdout := s\<rparr>) = files w"
  by (rule ext) (simp add: files_def)

lemma python3_ok_files:
  assumes "font_data = Inr buf" and "length buf = 4096" and "fst (python3 w) = 0"
  shows "files (snd (python3 w)) = files (stored w buf)"
proof -
  from assms(3) have o: "openable w" and r: "4096 \<le> room w"
    and s: "stdout_state w = Writable \<or> stdout_state w = Closed"
    by (simp_all add: python3_ok_iff)
  from r s show ?thesis
    by (auto simp: python3_openable [OF assms(1,2) o])
qed

lemma openable_stored [simp]: "openable (stored w d) = openable w"
  by (simp add: openable_def)

lemma openable_stdout [simp]: "openable (w\<lparr>stdout := s\<rparr>) = openable w"
  by (simp add: openable_def)

lemma room_stored [simp]: "room (stored w d) = room w - length d + length d"
  by (simp add: room_def stored_def)

lemma room_stdout [simp]: "room (w\<lparr>stdout := s\<rparr>) = room w"
  by (simp add: room_def split: option.splits)

lemma files_stored_again [simp]: "files (stored (stored w d) d) = files (stored w d)"
  by (rule ext) (simp add: files_def stored_def target_inode_def)




lemma ready_openable: "openable ready_world"
  by (simp add: openable_def ready_world_def bare_world_def dirname_output_path)

lemma ready_room: "room ready_world = 100000"
  by (simp add: room_def ready_world_def bare_world_def)

lemma ready_ok: "fst (python3 ready_world) = 0"
  by (simp add: python3_ok_iff ready_openable ready_room) (simp add: ready_world_def bare_world_def)







lemma linked_openable: "openable linked_world"
  by (simp add: openable_def linked_world_def ready_world_def bare_world_def
      dirname_output_path)


lemma same_file_report [simp]: "same_file (report m w) = same_file w"
  by (intro ext) (simp add: same_file_def)

lemma same_file_stdout [simp]: "same_file (w\<lparr>stdout := s\<rparr>) = same_file w"
  by (intro ext) (simp add: same_file_def)







lemma python3_linked:
  assumes "font_data = Inr blob" and "length blob = 4096"
  shows "python3 linked_world =
    (0, (stored linked_world blob)\<lparr>stdout := [''Created default_font.bin'']\<rparr>)"
proof -
  have "4096 \<le> room linked_world" "stdout_state linked_world = Writable"
    "stdout linked_world = []"
    by (simp_all add: room_def linked_world_def ready_world_def bare_world_def)
  then show ?thesis
    by (simp add: python3_openable [OF assms linked_openable])
qed

subsection \<open>The length of the buffer\<close>

text \<open>
  C2. The buffer has length exactly 4096 (256 glyph records of 16 bytes) when it is
  allocated, after every store of the script (after each prefix of the stores) and when
  it is handed to the write; on a successful run the file holds 4096 bytes. No store
  changes the length of a buffer.
\<close>

theorem buffer_length_4096:
  "(\<exists>b0. bytearray (256 * 16) = Inr b0 \<and> length b0 = 4096 \<and>
      (\<forall>k. \<exists>b. populate (take k assignments) b0 = Inr b \<and> length b = 4096)) \<and>
   (\<exists>buf. font_data = Inr buf \<and> length buf = 4096) \<and>
   (setitem buf i v = Inr buf' \<longrightarrow> length buf' = length buf) \<and>
   (fst (python3 w) = 0 \<longrightarrow>
      (\<exists>data. files (snd (python3 w)) output_path = Some data \<and> length data = 4096))"
proof -
  have pre: "\<exists>b. populate (take k assignments) (replicate 4096 0) = Inr b \<and> length b = 4096" for k
  proof -
    have "list_all (storable (length (replicate 4096 (0::int)))) (take k assignments)"
      using storable_assignments by (auto simp: list_all_iff dest: in_set_takeD)
    then show ?thesis by (simp add: populate_storable)
  qed
  have alloc: "bytearray (256 * 16) = Inr (replicate 4096 0)"
    by (simp add: bytearray_def)
  obtain blob where b: "font_data = Inr blob" "length blob = 4096"
    using font_data_built by blast
  have written: "fst (python3 w) = 0 \<longrightarrow>
      (\<exists>data. files (snd (python3 w)) output_path = Some data \<and> length data = 4096)"
    by (simp add: python3_ok_files [OF b] b(2))
  show ?thesis
    using pre alloc b written setitem_length by auto
qed

theorem buffer_length_4096_witness:
  "setitem [0, 0, 0] 1 7 = Inr [0, 7, 0] \<and> length [0, 7, 0 :: int] = length [0, 0, 0 :: int] \<and>
   fst (python3 ready_world) = 0 \<and>
   (\<exists>data. files (snd (python3 ready_world)) output_path = Some data \<and> length data = 4096)"
proof -
  have s: "setitem [0, 0, 0] 1 7 = Inr [0, 7, 0]"
    by (simp add: setitem_def)
  have r: "fst (python3 ready_world) = 0"
    by (rule ready_ok)
  from s r buffer_length_4096 [of "[0, 0, 0]" 1 7 "[0, 7, 0]" ready_world]
  show ?thesis by simp
qed

subsection \<open>Determinism\<close>



subsection \<open>Failure of the write\<close>






subsection \<open>Frame\<close>




text \<open>
  Why the frame is stated by file and not by path: in \<open>linked_world\<close> the unrelated name
  is a second name of the file at the output path, and reading it after the run gives
  the font.
\<close>

lemma linked_name_sees_write:
  "same_file linked_world ''README.md'' output_path \<and>
   map_option Inr (files (snd (python3 linked_world)) ''README.md'') = Some font_data"
proof -
  obtain blob where b: "font_data = Inr blob" "length blob = 4096"
    using font_data_built by blast
  have "files (snd (python3 linked_world)) ''README.md'' = Some blob"
    by (simp add: python3_linked [OF b] files_def stored_def target_inode_def)
      (simp add: linked_world_def ready_world_def bare_world_def)
  moreover have "same_file linked_world ''README.md'' output_path"
    by (simp add: same_file_def linked_world_def ready_world_def bare_world_def)
  ultimately show ?thesis by (simp add: b(1))
qed

end
